theory Spec2Isabelle
  imports Complex_Main
begin

section \<open>Python values and exceptions\<close>

text \<open>
  The handlers of \<^verbatim>\<open>new_server.py\<close> receive JSON-decoded values: the sensor record sent
  by a client and the body of the weather service's answer. Neither is checked before use,
  so the model keeps them as dynamically typed values. Python floats are modelled as
  reals, NaN and the infinities left out. The double arithmetic of the moving average
  (\<^verbatim>\<open>sum\<close> and the true division) is not fixed by the model: the platform supplies
  it, rounding and overflow included. The formula of the vapour pressure deficit,
  \<^verbatim>\<open>round\<close> and the comparisons are taken on the reals. The calls of \<^verbatim>\<open>print\<close> and
  the final \<^verbatim>\<open>sio.emit\<close> are taken to succeed; every other raise of the source is a
  branch of the model.
\<close>

datatype pyval =
    PNone
  | PBool bool
  | PInt int
  | PFloat real
  | PStr string
  | PList "pyval list"
  | PDict "(string \<times> pyval) list"

datatype pyerr =
    KeyError
  | TypeError
  | IndexError
  | AttributeError
  | ZeroDivisionError
  | OverflowError
  | RequestError

text \<open>The numeric value of a Python number; \<^verbatim>\<open>bool\<close> is a subclass of \<^verbatim>\<open>int\<close>.\<close>

fun py_num :: "pyval \<Rightarrow> real option" where
  "py_num (PBool b) = Some (if b then 1 else 0)"
| "py_num (PInt i) = Some (of_int i)"
| "py_num (PFloat r) = Some r"
| "py_num PNone = None"
| "py_num (PStr s) = None"
| "py_num (PList xs) = None"
| "py_num (PDict kvs) = None"

text \<open>\<^verbatim>\<open>obj[key]\<close> for a string key: only a dict accepts it.\<close>

fun py_getitem :: "pyval \<Rightarrow> string \<Rightarrow> pyerr + pyval" where
  "py_getitem (PDict kvs) k = (case map_of kvs k of None \<Rightarrow> Inl KeyError | Some v \<Rightarrow> Inr v)"
| "py_getitem PNone k = Inl TypeError"
| "py_getitem (PBool b) k = Inl TypeError"
| "py_getitem (PInt i) k = Inl TypeError"
| "py_getitem (PFloat r) k = Inl TypeError"
| "py_getitem (PStr s) k = Inl TypeError"
| "py_getitem (PList xs) k = Inl TypeError"

text \<open>\<^verbatim>\<open>obj[0]\<close>: a decoded JSON object has string keys only, so a dict raises KeyError.\<close>

fun py_getitem0 :: "pyval \<Rightarrow> pyerr + pyval" where
  "py_getitem0 (PList []) = Inl IndexError"
| "py_getitem0 (PList (x # xs)) = Inr x"
| "py_getitem0 (PStr []) = Inl IndexError"
| "py_getitem0 (PStr (c # cs)) = Inr (PStr [c])"
| "py_getitem0 (PDict kvs) = Inl KeyError"
| "py_getitem0 PNone = Inl TypeError"
| "py_getitem0 (PBool b) = Inl TypeError"
| "py_getitem0 (PInt i) = Inl TypeError"
| "py_getitem0 (PFloat r) = Inl TypeError"

text \<open>\<^verbatim>\<open>obj.get(key)\<close>: \<^verbatim>\<open>None\<close> for a key the dict lacks, AttributeError on anything else.\<close>

fun py_get :: "pyval \<Rightarrow> string \<Rightarrow> pyerr + pyval" where
  "py_get (PDict kvs) k = Inr (case map_of kvs k of None \<Rightarrow> PNone | Some v \<Rightarrow> v)"
| "py_get PNone k = Inl AttributeError"
| "py_get (PBool b) k = Inl AttributeError"
| "py_get (PInt i) k = Inl AttributeError"
| "py_get (PFloat r) k = Inl AttributeError"
| "py_get (PStr s) k = Inl AttributeError"
| "py_get (PList xs) k = Inl AttributeError"

text \<open>\<^verbatim>\<open>x == c\<close> for a number \<open>c\<close>: true exactly for a number of that value.\<close>

definition py_eq_num :: "pyval \<Rightarrow> real \<Rightarrow> bool" where
  "py_eq_num x c = (py_num x = Some c)"

text \<open>\<^verbatim>\<open>x > c\<close> for a number \<open>c\<close>: ordering a non-number against a number raises.\<close>

definition py_gt :: "pyval \<Rightarrow> real \<Rightarrow> pyerr + bool" where
  "py_gt x c = (case py_num x of None \<Rightarrow> Inl TypeError | Some r \<Rightarrow> Inr (r > c))"

text \<open>
  The double arithmetic of the platform, as far as the moving average uses it:
  the float sum that \<^verbatim>\<open>sum\<close> accumulates from a float start value over the remaining
  items (plain or compensated, as the interpreter does it), the division of a float by
  an integer, the conversion of an integer to a float and the true division of two
  integers. The last two raise OverflowError when the result is beyond the doubles;
  that is the value \<open>None\<close>.
\<close>

record arithmetic =
  float_sum :: "real \<Rightarrow> pyval list \<Rightarrow> real"
  float_div :: "real \<Rightarrow> int \<Rightarrow> real"
  int_to_float :: "int \<Rightarrow> real option"
  int_div :: "int \<Rightarrow> int \<Rightarrow> real option"

text \<open>A Python number: an unbounded integer or a float.\<close>

datatype pynum = NInt int | NFloat real

text \<open>
  \<^verbatim>\<open>sum(xs)\<close> starts from the integer 0. While the items are integers (or booleans)
  they are added exactly; \<open>py_ints\<close> yields that sum and the items from the first other
  one on.
\<close>

fun py_ints :: "int \<Rightarrow> pyval list \<Rightarrow> int \<times> pyval list" where
  "py_ints acc [] = (acc, [])"
| "py_ints acc (PInt i # xs) = py_ints (acc + i) xs"
| "py_ints acc (PBool b # xs) = py_ints (acc + (if b then 1 else 0)) xs"
| "py_ints acc (PNone # xs) = (acc, PNone # xs)"
| "py_ints acc (PFloat r # xs) = (acc, PFloat r # xs)"
| "py_ints acc (PStr s # xs) = (acc, PStr s # xs)"
| "py_ints acc (PList ys # xs) = (acc, PList ys # xs)"
| "py_ints acc (PDict kvs # xs) = (acc, PDict kvs # xs)"

text \<open>
  Once the sum is a float, every further item is added as a float: the first item that
  is no number raises TypeError, the first integer beyond the doubles OverflowError.
\<close>

fun float_check :: "arithmetic \<Rightarrow> pyval list \<Rightarrow> pyerr option" where
  "float_check ar [] = None"
| "float_check ar (PFloat r # xs) = float_check ar xs"
| "float_check ar (PBool b # xs) = float_check ar xs"
| "float_check ar (PInt i # xs) =
     (case int_to_float ar i of None \<Rightarrow> Some OverflowError | Some f \<Rightarrow> float_check ar xs)"
| "float_check ar (PNone # xs) = Some TypeError"
| "float_check ar (PStr s # xs) = Some TypeError"
| "float_check ar (PList ys # xs) = Some TypeError"
| "float_check ar (PDict kvs # xs) = Some TypeError"

text \<open>
  \<^verbatim>\<open>sum(buf)\<close>: an integer when every item is one; otherwise the integer sum so far is
  converted at the first float and the platform sums the rest. \<open>py_ints\<close> stops at
  the first item that is no integer, so the last case is an item that is no number.
\<close>

definition py_sum :: "arithmetic \<Rightarrow> pyval list \<Rightarrow> pyerr + pynum" where
  "py_sum ar buf =
     (case py_ints 0 buf of
        (i, []) \<Rightarrow> Inr (NInt i)
      | (i, PFloat r # xs) \<Rightarrow>
          (case int_to_float ar i of
             None \<Rightarrow> Inl OverflowError
           | Some f \<Rightarrow>
               (case float_check ar xs of
                  Some e \<Rightarrow> Inl e
                | None \<Rightarrow> Inr (NFloat (float_sum ar f (PFloat r # xs)))))
      | (i, x # xs) \<Rightarrow> Inl TypeError)"

text \<open>
  \<^verbatim>\<open>sum(buf) / len(buf)\<close>: the sum is evaluated first, then the true division, of two
  integers or of a float by an integer.
\<close>

definition py_mean :: "arithmetic \<Rightarrow> pyval list \<Rightarrow> pyerr + real" where
  "py_mean ar buf =
     (case py_sum ar buf of
        Inl e \<Rightarrow> Inl e
      | Inr s \<Rightarrow>
          if length buf = 0 then Inl ZeroDivisionError
          else
            (case s of
               NInt i \<Rightarrow>
                 (case int_div ar i (int (length buf)) of
                    None \<Rightarrow> Inl OverflowError
                  | Some q \<Rightarrow> Inr q)
             | NFloat f \<Rightarrow> Inr (float_div ar f (int (length buf)))))"

text \<open>\<^verbatim>\<open>round(x, n)\<close> on a float: to \<open>n\<close> decimals, a tie going to the even neighbour.\<close>

definition py_round :: "real \<Rightarrow> nat \<Rightarrow> real" where
  "py_round x n =
     (let s = x * 10 ^ n; f = \<lfloor>s\<rfloor>; d = s - of_int f
      in (if d < 1 / 2 then of_int f
          else if 1 / 2 < d then of_int (f + 1)
          else if even f then of_int f
          else of_int (f + 1)) / 10 ^ n)"

text \<open>\<^verbatim>\<open>deque(maxlen=5).append(x)\<close>: add on the right, discard from the left beyond 5.\<close>

definition deque_append :: "'a list \<Rightarrow> 'a \<Rightarrow> 'a list" where
  "deque_append buf x = (let ys = buf @ [x] in drop (length ys - 5) ys)"

section \<open>The plant's state\<close>

record PlantBrain =
  soil_buffer :: "pyval list"
  temp_buffer :: "pyval list"
  light_buffer :: "pyval list"
  last_sent_temp :: real
  last_sent_soil :: real
  pump_status :: bool
  pump_lock :: bool
  last_pump_time :: real
  alert_message :: string
  battery_level :: int
  weather_condition :: pyval
  outside_temp :: pyval
  outside_humidity :: pyval
  last_weather_fetch :: real

text \<open>\<^verbatim>\<open>PlantBrain.__init__\<close>\<close>

definition init :: PlantBrain where
  "init =
     \<lparr>soil_buffer = [], temp_buffer = [], light_buffer = [],
      last_sent_temp = - 999, last_sent_soil = - 999,
      pump_status = False, pump_lock = False, last_pump_time = 0,
      alert_message = ''System Normal'', battery_level = 100,
      weather_condition = PStr ''Unknown'', outside_temp = PFloat 30,
      outside_humidity = PFloat 70, last_weather_fetch = 0\<rparr>"

section \<open>The weather provider\<close>

text \<open>
  The answer of \<^verbatim>\<open>requests.get(WEATHER_API_URL).json()\<close>: either the call or the
  decoding raises, or a decoded body comes back.
\<close>

type_synonym response = "pyerr + pyval"

text \<open>The \<^verbatim>\<open>except:\<close> branch.\<close>

definition weather_fallback :: "PlantBrain \<Rightarrow> PlantBrain" where
  "weather_fallback p = p\<lparr>weather_condition := PStr ''Clouds''\<rparr>"

text \<open>
  The body of the \<^verbatim>\<open>try:\<close> once the answer is decoded. The three fields are assigned
  one after the other, so an exception in a later subscript leaves the earlier
  assignments in place.
\<close>

definition weather_update :: "pyval \<Rightarrow> PlantBrain \<Rightarrow> PlantBrain" where
  "weather_update data p =
     (case py_get data ''cod'' of
        Inl e \<Rightarrow> weather_fallback p
      | Inr cod \<Rightarrow>
          if py_eq_num cod 200 then
            (case py_getitem data ''weather'' of
               Inl e \<Rightarrow> weather_fallback p
             | Inr ws \<Rightarrow>
            (case py_getitem0 ws of
               Inl e \<Rightarrow> weather_fallback p
             | Inr w \<Rightarrow>
            (case py_getitem w ''main'' of
               Inl e \<Rightarrow> weather_fallback p
             | Inr c \<Rightarrow>
            let p1 = p\<lparr>weather_condition := c\<rparr> in
            (case py_getitem data ''main'' of
               Inl e \<Rightarrow> weather_fallback p1
             | Inr m \<Rightarrow>
            (case py_getitem m ''temp'' of
               Inl e \<Rightarrow> weather_fallback p1
             | Inr t \<Rightarrow>
            let p2 = p1\<lparr>outside_temp := t\<rparr> in
            (case py_getitem data ''main'' of
               Inl e \<Rightarrow> weather_fallback p2
             | Inr m2 \<Rightarrow>
            (case py_getitem m2 ''humidity'' of
               Inl e \<Rightarrow> weather_fallback p2
             | Inr h \<Rightarrow> p2\<lparr>outside_humidity := h\<rparr>)))))))
          else p)"

text \<open>
  \<^verbatim>\<open>PlantBrain.get_weather\<close>. \<open>now\<close> is the reading of \<^verbatim>\<open>time.time()\<close> on entry and
  \<open>resp\<close> the answer the service gives if it is asked. The second component counts the
  requests sent.
\<close>

definition get_weather :: "real \<Rightarrow> response \<Rightarrow> PlantBrain \<Rightarrow> PlantBrain \<times> nat" where
  "get_weather now resp p =
     (if now - last_weather_fetch p < 600 then (p, 0)
      else
        (let p1 = (case resp of
                     Inl e \<Rightarrow> weather_fallback p
                   | Inr data \<Rightarrow> weather_update data p)
         in (p1\<lparr>last_weather_fetch := now\<rparr>, 1)))"

text \<open>
  \<^verbatim>\<open>PlantBrain.calculate_vpd\<close>, called with the float \<^verbatim>\<open>avg_temp\<close> and the stored
  \<^verbatim>\<open>outside_humidity\<close>. The quotient is taken first, the humidity is divided last.
\<close>

definition calculate_vpd :: "real \<Rightarrow> pyval \<Rightarrow> pyerr + real" where
  "calculate_vpd temp humidity =
     (if temp + 237.3 = 0 then Inl ZeroDivisionError
      else
        (let svp = 0.6108 * exp ((17.27 * temp) / (temp + 237.3))
         in (case py_num humidity of
               None \<Rightarrow> Inl TypeError
             | Some h \<Rightarrow> (let avp = svp * (h / 100.0) in Inr (svp - avp)))))"

section \<open>One cycle of \<^verbatim>\<open>sensor_data\<close>\<close>

text \<open>
  What the environment supplies during one cycle: the three readings of
  \<^verbatim>\<open>time.time()\<close> (on entry of \<^verbatim>\<open>get_weather\<close>, when the pump starts, when the pulse
  is checked), the weather service's answer, the formatted local time and the double
  arithmetic of the platform.
\<close>

record env =
  clock_weather :: real
  clock_start :: real
  clock_check :: real
  weather_response :: response
  stamp :: string
  platform :: arithmetic

text \<open>
  The record handed to \<^verbatim>\<open>sio.emit\<close>. The three nutrient values of the \<^verbatim>\<open>npk\<close>
  f-string are kept as values, not rendered.
\<close>

record payload =
  out_timestamp :: string
  out_soil :: real
  out_temp :: real
  out_light :: real
  out_npk :: "pyval \<times> pyval \<times> pyval"
  out_condition :: pyval
  out_outside_temp :: pyval
  out_humidity :: pyval
  out_vpd :: real
  out_pump_active :: bool
  out_algorithm_state :: string
  out_alert :: string
  out_battery_level :: int

datatype outcome = Raised pyerr | Dropped | Emitted payload

text \<open>
  The plant is a module-level object: what a cycle wrote before it raised stays
  written. A cycle therefore yields the plant, the number of weather requests sent and
  how the handler ended.
\<close>

record cycle =
  brain :: PlantBrain
  fetches :: nat
  outcome :: outcome

definition halt :: "PlantBrain \<Rightarrow> nat \<Rightarrow> outcome \<Rightarrow> cycle" where
  "halt p n out = \<lparr>brain = p, fetches = n, outcome = out\<rparr>"

text \<open>The condition of the third safety rule, with Python's short-circuit \<^verbatim>\<open>or\<close>.\<close>

definition nutrient_burn :: "pyval \<Rightarrow> pyerr + bool" where
  "nutrient_burn data =
     (case py_getitem data ''nitrogen'' of
        Inl e \<Rightarrow> Inl e
      | Inr n \<Rightarrow>
     (case py_gt n 200 of
        Inl e \<Rightarrow> Inl e
      | Inr True \<Rightarrow> Inr True
      | Inr False \<Rightarrow>
     (case py_getitem data ''potassium'' of
        Inl e \<Rightarrow> Inl e
      | Inr k \<Rightarrow> py_gt k 200)))"

text \<open>
  Step 3.1, the safety layer: the \<^verbatim>\<open>if\<close>/\<^verbatim>\<open>elif\<close> chain. It yields the plant and
  the decision label; an exception can only come from the third condition, before
  anything is written.
\<close>

definition safety_layer ::
  "pyval \<Rightarrow> real \<Rightarrow> real \<Rightarrow> PlantBrain \<Rightarrow> pyerr + (PlantBrain \<times> string)" where
  "safety_layer data avg_soil avg_temp p =
     (if avg_soil > 80 then
        Inr (p\<lparr>pump_lock := True, alert_message := ''Soil too wet! Pump disabled.''\<rparr>,
             ''Saturation Lock'')
      else if avg_temp > 35 then
        Inr (p\<lparr>pump_lock := True, alert_message := ''High Temp! Watering paused.''\<rparr>,
             ''Heat Stress'')
      else
        (case nutrient_burn data of
           Inl e \<Rightarrow> Inl e
         | Inr True \<Rightarrow>
             Inr (p\<lparr>pump_lock := True, alert_message := ''Nutrient Burn Risk! Flush soil.''\<rparr>,
                  ''Salinity Risk'')
         | Inr False \<Rightarrow>
             Inr (p\<lparr>pump_lock := False, alert_message := ''System Normal''\<rparr>, ''Optimal'')))"

text \<open>
  The pulse logic under the critical check: the start time is taken only when the pump
  is not running, then the elapsed time is compared with 10 seconds.
\<close>

definition pulse_logic :: "real \<Rightarrow> real \<Rightarrow> PlantBrain \<Rightarrow> PlantBrain \<times> bool" where
  "pulse_logic now_start now_check p =
     (let p1 = (if \<not> pump_status p then p\<lparr>last_pump_time := now_start\<rparr> else p)
      in if now_check - last_pump_time p1 > 10
         then (p1\<lparr>alert_message := ''Pump Timeout (Safety)''\<rparr>, False)
         else (p1, True))"

text \<open>
  Step 3.2, the intelligence layer. It yields the plant, the decision label, the pump
  command and the local \<^verbatim>\<open>vpd\<close>, which exists only when the layer ran.
\<close>

definition intelligence_layer ::
  "real \<Rightarrow> real \<Rightarrow> real \<Rightarrow> real \<Rightarrow> string \<Rightarrow> PlantBrain
     \<Rightarrow> pyerr + (PlantBrain \<times> string \<times> bool \<times> real option)" where
  "intelligence_layer avg_soil avg_temp now_start now_check decision p =
     (if \<not> pump_lock p then
        (case calculate_vpd avg_temp (outside_humidity p) of
           Inl e \<Rightarrow> Inl e
         | Inr vpd \<Rightarrow>
             (let (watering_threshold, decision1) =
                    (if weather_condition p = PStr ''Rain'' then (20.0, ''Raining (Passive)'')
                     else if vpd > 1.2 then (50.0, ''High Transpiration'')
                     else (40.0, decision))
              in if avg_soil < watering_threshold then
                   (let (p1, pump_command) = pulse_logic now_start now_check p
                    in Inr (p1, ''Critical: Pulse Irrigation'', pump_command, Some vpd))
                 else Inr (p, decision1, False, Some vpd)))
      else Inr (p, decision, False, None))"

text \<open>Step 4, the output record; the nutrient subscripts can still raise.\<close>

definition output_payload ::
  "pyval \<Rightarrow> string \<Rightarrow> real \<Rightarrow> real \<Rightarrow> real \<Rightarrow> string \<Rightarrow> real option \<Rightarrow> PlantBrain
     \<Rightarrow> pyerr + payload" where
  "output_payload data ts avg_soil avg_temp avg_light decision vpd p =
     (case py_getitem data ''nitrogen'' of
        Inl e \<Rightarrow> Inl e
      | Inr n \<Rightarrow>
     (case py_getitem data ''phosphorus'' of
        Inl e \<Rightarrow> Inl e
      | Inr ph \<Rightarrow>
     (case py_getitem data ''potassium'' of
        Inl e \<Rightarrow> Inl e
      | Inr k \<Rightarrow>
          Inr \<lparr>out_timestamp = ts,
               out_soil = py_round avg_soil 1,
               out_temp = py_round avg_temp 1,
               out_light = py_round avg_light 1,
               out_npk = (n, ph, k),
               out_condition = weather_condition p,
               out_outside_temp = outside_temp p,
               out_humidity = outside_humidity p,
               out_vpd = (case vpd of Some v \<Rightarrow> py_round v 2 | None \<Rightarrow> 0),
               out_pump_active = pump_status p,
               out_algorithm_state = decision,
               out_alert = alert_message p,
               out_battery_level = 85\<rparr>)))"

text \<open>Steps 2 to 4, entered once the three means exist.\<close>

definition decide :: "pyval \<Rightarrow> env \<Rightarrow> real \<Rightarrow> real \<Rightarrow> real \<Rightarrow> PlantBrain \<Rightarrow> cycle" where
  "decide data ev avg_soil avg_temp avg_light p =
     (let p1 = p\<lparr>last_sent_temp := avg_temp, last_sent_soil := avg_soil\<rparr>;
          (p2, n) = get_weather (clock_weather ev) (weather_response ev) p1
      in (case safety_layer data avg_soil avg_temp p2 of
            Inl e \<Rightarrow> halt p2 n (Raised e)
          | Inr (p3, decision) \<Rightarrow>
         (case intelligence_layer avg_soil avg_temp (clock_start ev) (clock_check ev)
                 decision p3 of
            Inl e \<Rightarrow> halt p3 n (Raised e)
          | Inr (p4, decision1, pump_command, vpd) \<Rightarrow>
         (let p5 = p4\<lparr>pump_status := pump_command\<rparr>
          in (case output_payload data (stamp ev) avg_soil avg_temp avg_light decision1 vpd p5 of
                Inl e \<Rightarrow> halt p5 n (Raised e)
              | Inr out \<Rightarrow> halt p5 n (Emitted out))))))"

text \<open>Step 1 up to the means: the three appends, the gate, the moving averages.\<close>

definition sensor_data :: "pyval \<Rightarrow> env \<Rightarrow> PlantBrain \<Rightarrow> cycle" where
  "sensor_data data ev p =
     (case py_getitem data ''soil_moisture'' of
        Inl e \<Rightarrow> halt p 0 (Raised e)
      | Inr s \<Rightarrow>
     (let p1 = p\<lparr>soil_buffer := deque_append (soil_buffer p) s\<rparr> in
     (case py_getitem data ''temperature'' of
        Inl e \<Rightarrow> halt p1 0 (Raised e)
      | Inr t \<Rightarrow>
     (let p2 = p1\<lparr>temp_buffer := deque_append (temp_buffer p1) t\<rparr> in
     (case py_getitem data ''light_intensity'' of
        Inl e \<Rightarrow> halt p2 0 (Raised e)
      | Inr l \<Rightarrow>
     (let p3 = p2\<lparr>light_buffer := deque_append (light_buffer p2) l\<rparr> in
      if length (soil_buffer p3) < 2 then halt p3 0 Dropped
      else
     (case py_mean (platform ev) (soil_buffer p3) of
        Inl e \<Rightarrow> halt p3 0 (Raised e)
      | Inr avg_soil \<Rightarrow>
     (case py_mean (platform ev) (temp_buffer p3) of
        Inl e \<Rightarrow> halt p3 0 (Raised e)
      | Inr avg_temp \<Rightarrow>
     (case py_mean (platform ev) (light_buffer p3) of
        Inl e \<Rightarrow> halt p3 0 (Raised e)
      | Inr avg_light \<Rightarrow> decide data ev avg_soil avg_temp avg_light p3)))))))))"

text \<open>
  A sequence of cycles, each starting from the plant the previous one left: the plant
  after the whole sequence, and the \<open>k\<close>-th cycle of the sequence (counted from 0).
\<close>

fun run_brain :: "(pyval \<times> env) list \<Rightarrow> PlantBrain \<Rightarrow> PlantBrain" where
  "run_brain [] p = p"
| "run_brain ((data, ev) # cs) p = run_brain cs (brain (sensor_data data ev p))"

definition nth_cycle :: "(pyval \<times> env) list \<Rightarrow> PlantBrain \<Rightarrow> nat \<Rightarrow> cycle" where
  "nth_cycle cs p k = sensor_data (fst (cs ! k)) (snd (cs ! k)) (run_brain (take k cs) p)"

text \<open>
  A sequence of calls of \<^verbatim>\<open>get_weather\<close>, each with its clock reading and the answer
  the service would give; the result lists the requests each call sent.
\<close>

fun weather_calls :: "(real \<times> response) list \<Rightarrow> PlantBrain \<Rightarrow> nat list" where
  "weather_calls [] p = []"
| "weather_calls ((now, resp) # cs) p =
     (let (p', n) = get_weather now resp p in n # weather_calls cs p')"

section \<open>Sample inputs\<close>

text \<open>
  A number of absolute value \<open>2 ^ 1024 - 2 ^ 970\<close> or more rounds to a value beyond
  the largest double.
\<close>

definition double_limit :: int where
  "double_limit = 2 ^ 1024 - 2 ^ 970"

text \<open>
  An arithmetic that is exact inside the range of the doubles and raises beyond it. On
  the small integers and halves of the samples below this is what the doubles give.
\<close>

definition exact_arithmetic :: arithmetic where
  "exact_arithmetic =
     \<lparr>float_sum = (\<lambda>f xs. f + sum_list (map (\<lambda>x. case py_num x of Some r \<Rightarrow> r | None \<Rightarrow> 0) xs)),
      float_div = (\<lambda>f n. f / of_int n),
      int_to_float = (\<lambda>i. if \<bar>i\<bar> < double_limit then Some (of_int i) else None),
      int_div = (\<lambda>i n. if \<bar>of_int i / of_int n :: real\<bar> < of_int double_limit
                       then Some (of_int i / of_int n) else None)\<rparr>"

text \<open>
  A well-formed sensor record with the given soil moisture and temperature, the clock
  and weather answer of a cycle, and the plant after one such record has been observed.
\<close>

definition reading :: "real \<Rightarrow> real \<Rightarrow> pyval" where
  "reading s t =
     PDict [(''soil_moisture'', PFloat s), (''temperature'', PFloat t),
            (''light_intensity'', PFloat 500), (''nitrogen'', PInt 50),
            (''phosphorus'', PInt 50), (''potassium'', PInt 50)]"

definition at_time :: "real \<Rightarrow> response \<Rightarrow> env" where
  "at_time t resp =
     \<lparr>clock_weather = t, clock_start = t, clock_check = t,
      weather_response = resp, stamp = ''12:00:00'', platform = exact_arithmetic\<rparr>"

definition warmed :: "real \<Rightarrow> real \<Rightarrow> PlantBrain" where
  "warmed s t =
     init\<lparr>soil_buffer := [PFloat s], temp_buffer := [PFloat t], light_buffer := [PFloat 500]\<rparr>"

definition answer :: "string \<Rightarrow> real \<Rightarrow> real \<Rightarrow> pyval" where
  "answer c t h =
     PDict [(''cod'', PInt 200), (''weather'', PList [PDict [(''main'', PStr c)]]),
            (''main'', PDict [(''temp'', PFloat t), (''humidity'', PFloat h)])]"

text \<open>A sequence of well-formed records with the given soil moistures.\<close>

definition readings :: "real list \<Rightarrow> (pyval \<times> env) list" where
  "readings ss = map (\<lambda>s. (reading s 0, at_time 1000 (Inl RequestError))) ss"

text \<open>Cycles with dry soil (moisture 30) at the given clock readings.\<close>

definition dry_cycles :: "real list \<Rightarrow> (pyval \<times> env) list" where
  "dry_cycles ts = map (\<lambda>t. (reading 30 0, at_time t (Inl RequestError))) ts"

text \<open>A record whose soil moisture is an integer beyond the range of the doubles.\<close>

definition heavy :: pyval where
  "heavy =
     PDict [(''soil_moisture'', PInt (10 ^ 309)), (''temperature'', PFloat 0),
            (''light_intensity'', PFloat 500), (''nitrogen'', PInt 50),
            (''phosphorus'', PInt 50), (''potassium'', PInt 50)]"

section \<open>Inversion rules for the stages of a cycle\<close>

text \<open>
  A cycle that publishes a record went through every stage; the rules below read the
  stages off the result, so that the properties of a published record follow from the
  properties of each stage.
\<close>

lemma sensor_data_Emitted:
  assumes "outcome (sensor_data data ev p) = Emitted out"
  obtains s t l a b c where
    "py_getitem data ''soil_moisture'' = Inr s"
    "py_getitem data ''temperature'' = Inr t"
    "py_getitem data ''light_intensity'' = Inr l"
    "2 \<le> length (deque_append (soil_buffer p) s)"
    "py_mean (platform ev) (deque_append (soil_buffer p) s) = Inr a"
    "py_mean (platform ev) (deque_append (temp_buffer p) t) = Inr b"
    "py_mean (platform ev) (deque_append (light_buffer p) l) = Inr c"
    "sensor_data data ev p =
       decide data ev a b c
         (p\<lparr>soil_buffer := deque_append (soil_buffer p) s,
            temp_buffer := deque_append (temp_buffer p) t,
            light_buffer := deque_append (light_buffer p) l\<rparr>)"
  using assms unfolding sensor_data_def halt_def
  by (auto simp: Let_def split: sum.splits if_splits)

lemma decide_Emitted:
  assumes "outcome (decide data ev a b c p) = Emitted out"
  obtains p2 n p3 d p4 d1 cmd v where
    "get_weather (clock_weather ev) (weather_response ev)
       (p\<lparr>last_sent_temp := b, last_sent_soil := a\<rparr>) = (p2, n)"
    "safety_layer data a b p2 = Inr (p3, d)"
    "intelligence_layer a b (clock_start ev) (clock_check ev) d p3 = Inr (p4, d1, cmd, v)"
    "output_payload data (stamp ev) a b c d1 v (p4\<lparr>pump_status := cmd\<rparr>) = Inr out"
    "decide data ev a b c p =
       \<lparr>brain = p4\<lparr>pump_status := cmd\<rparr>, fetches = n, outcome = Emitted out\<rparr>"
  using assms unfolding decide_def halt_def
  by (auto simp: Let_def split: sum.splits prod.splits)

lemma safety_layer_cases:
  assumes "safety_layer data a b p = Inr (p', d)"
  obtains
    (saturation) "a > 80"
      "p' = p\<lparr>pump_lock := True, alert_message := ''Soil too wet! Pump disabled.''\<rparr>"
      "d = ''Saturation Lock''"
  | (heat) "\<not> a > 80" "b > 35"
      "p' = p\<lparr>pump_lock := True, alert_message := ''High Temp! Watering paused.''\<rparr>"
      "d = ''Heat Stress''"
  | (salinity) "\<not> a > 80" "\<not> b > 35" "nutrient_burn data = Inr True"
      "p' = p\<lparr>pump_lock := True, alert_message := ''Nutrient Burn Risk! Flush soil.''\<rparr>"
      "d = ''Salinity Risk''"
  | (optimal) "\<not> a > 80" "\<not> b > 35" "nutrient_burn data = Inr False"
      "p' = p\<lparr>pump_lock := False, alert_message := ''System Normal''\<rparr>"
      "d = ''Optimal''"
  using assms unfolding safety_layer_def
  by (auto split: sum.splits if_splits bool.splits)

lemma pulse_logic_eq:
  "pulse_logic ns nc p =
     (let t0 = (if pump_status p then last_pump_time p else ns)
      in if nc - t0 > 10
         then (p\<lparr>last_pump_time := t0, alert_message := ''Pump Timeout (Safety)''\<rparr>, False)
         else (p\<lparr>last_pump_time := t0\<rparr>, True))"
  unfolding pulse_logic_def by (simp add: Let_def)

lemma intelligence_layer_cases:
  assumes "intelligence_layer a b ns nc d p = Inr (p', d', cmd, v)"
  obtains
    (locked) "pump_lock p" "p' = p" "d' = d" "\<not> cmd" "v = None"
  | (critical) x where "\<not> pump_lock p" "calculate_vpd b (outside_humidity p) = Inr x"
      "v = Some x"
      "a < (if weather_condition p = PStr ''Rain'' then 20 else if x > 1.2 then 50 else 40)"
      "d' = ''Critical: Pulse Irrigation''" "pulse_logic ns nc p = (p', cmd)"
  | (declined) x where "\<not> pump_lock p" "calculate_vpd b (outside_humidity p) = Inr x"
      "v = Some x"
      "\<not> a < (if weather_condition p = PStr ''Rain'' then 20 else if x > 1.2 then 50 else 40)"
      "d' = (if weather_condition p = PStr ''Rain'' then ''Raining (Passive)''
             else if x > 1.2 then ''High Transpiration'' else d)"
      "p' = p" "\<not> cmd"
proof (cases "pump_lock p")
  case True
  with assms have r: "p' = p" "d' = d" "\<not> cmd" "v = None"
    by (simp_all add: intelligence_layer_def)
  from True r show ?thesis by (rule locked)
next
  case False
  with assms obtain x where x: "calculate_vpd b (outside_humidity p) = Inr x"
    by (auto simp: intelligence_layer_def split: sum.splits)
  show ?thesis
  proof (cases "a < (if weather_condition p = PStr ''Rain'' then 20 else if x > 1.2 then 50 else 40)")
    case True
    with assms False x have v: "v = Some x"
      and r: "d' = ''Critical: Pulse Irrigation''" "pulse_logic ns nc p = (p', cmd)"
      by (auto simp: intelligence_layer_def split: if_splits prod.splits)
    from False x v True r show ?thesis by (rule critical)
  next
    case nlt: False
    with assms False x have v: "v = Some x"
      and r: "d' = (if weather_condition p = PStr ''Rain'' then ''Raining (Passive)''
             else if x > 1.2 then ''High Transpiration'' else d)" "p' = p" "\<not> cmd"
      by (auto simp: intelligence_layer_def split: if_splits prod.splits)
    from False x v nlt r show ?thesis by (rule declined)
  qed
qed

lemma output_payload_fields:
  assumes "output_payload data ts a b c d v p = Inr out"
  shows "out_pump_active out = pump_status p" "out_algorithm_state out = d"
    "out_alert out = alert_message p"
    "out_vpd out = (case v of Some x \<Rightarrow> py_round x 2 | None \<Rightarrow> 0)"
    "out_soil out = py_round a 1" "out_temp out = py_round b 1" "out_light out = py_round c 1"
    "out_condition out = weather_condition p" "out_outside_temp out = outside_temp p"
    "out_humidity out = outside_humidity p" "out_timestamp out = ts" "out_battery_level out = 85"
  using assms unfolding output_payload_def
  by (auto split: sum.splits)

lemma get_weather_frame:
  assumes "get_weather now resp p = (p', n)"
  shows "soil_buffer p' = soil_buffer p" "temp_buffer p' = temp_buffer p"
    "light_buffer p' = light_buffer p" "last_sent_temp p' = last_sent_temp p"
    "last_sent_soil p' = last_sent_soil p" "pump_status p' = pump_status p"
    "pump_lock p' = pump_lock p" "last_pump_time p' = last_pump_time p"
    "alert_message p' = alert_message p" "battery_level p' = battery_level p"
  using assms unfolding get_weather_def weather_update_def weather_fallback_def
  by (auto simp: Let_def split: sum.splits if_splits)

lemma safety_layer_keeps:
  assumes "safety_layer data a b p = Inr (p', d)"
  shows "soil_buffer p' = soil_buffer p" "temp_buffer p' = temp_buffer p"
    "light_buffer p' = light_buffer p" "last_sent_temp p' = last_sent_temp p"
    "last_sent_soil p' = last_sent_soil p" "pump_status p' = pump_status p"
    "last_pump_time p' = last_pump_time p" "weather_condition p' = weather_condition p"
    "outside_temp p' = outside_temp p" "outside_humidity p' = outside_humidity p"
    "last_weather_fetch p' = last_weather_fetch p"
  using assms by (cases rule: safety_layer_cases; simp)+

lemma pulse_logic_keeps:
  assumes "pulse_logic ns nc p = (p', cmd)"
  shows "soil_buffer p' = soil_buffer p" "temp_buffer p' = temp_buffer p"
    "light_buffer p' = light_buffer p" "last_sent_temp p' = last_sent_temp p"
    "last_sent_soil p' = last_sent_soil p" "pump_lock p' = pump_lock p"
    "weather_condition p' = weather_condition p"
    "outside_temp p' = outside_temp p" "outside_humidity p' = outside_humidity p"
    "last_weather_fetch p' = last_weather_fetch p"
    "last_pump_time p' = (if pump_status p then last_pump_time p else ns)"
    "cmd = (\<not> nc - last_pump_time p' > 10)"
    "alert_message p' = (if cmd then alert_message p else ''Pump Timeout (Safety)'')"
  using assms by (auto simp: pulse_logic_eq Let_def split: if_splits)

lemma intelligence_layer_keeps:
  assumes "intelligence_layer a b ns nc d p = Inr (p', d', cmd, v)"
  shows "soil_buffer p' = soil_buffer p" "temp_buffer p' = temp_buffer p"
    "light_buffer p' = light_buffer p" "last_sent_temp p' = last_sent_temp p"
    "last_sent_soil p' = last_sent_soil p" "pump_lock p' = pump_lock p"
    "weather_condition p' = weather_condition p"
    "outside_temp p' = outside_temp p" "outside_humidity p' = outside_humidity p"
    "last_weather_fetch p' = last_weather_fetch p"
  using assms by (cases rule: intelligence_layer_cases; simp add: pulse_logic_keeps)+

text \<open>The stages of a cycle that published a record, read off the plant it left.\<close>

lemma sensor_data_published:
  assumes "outcome (sensor_data data ev p) = Emitted out"
  obtains a b c p2 n p3 d p4 d1 cmd v where
    "brain (sensor_data data ev p) = p4\<lparr>pump_status := cmd\<rparr>"
    "fetches (sensor_data data ev p) = n"
    "safety_layer data a b p2 = Inr (p3, d)"
    "intelligence_layer a b (clock_start ev) (clock_check ev) d p3 = Inr (p4, d1, cmd, v)"
    "output_payload data (stamp ev) a b c d1 v (p4\<lparr>pump_status := cmd\<rparr>) = Inr out"
    "last_sent_soil p2 = a" "last_sent_temp p2 = b"
    "pump_status p2 = pump_status p" "last_pump_time p2 = last_pump_time p"
proof -
  from assms obtain s t l a b c where
    sd: "sensor_data data ev p =
       decide data ev a b c
         (p\<lparr>soil_buffer := deque_append (soil_buffer p) s,
            temp_buffer := deque_append (temp_buffer p) t,
            light_buffer := deque_append (light_buffer p) l\<rparr>)"
    by (rule sensor_data_Emitted)
  let ?p0 = "p\<lparr>soil_buffer := deque_append (soil_buffer p) s,
            temp_buffer := deque_append (temp_buffer p) t,
            light_buffer := deque_append (light_buffer p) l\<rparr>"
  from sd assms have "outcome (decide data ev a b c ?p0) = Emitted out" by simp
  then obtain p2 n p3 d p4 d1 cmd v where
    gw: "get_weather (clock_weather ev) (weather_response ev)
       (?p0\<lparr>last_sent_temp := b, last_sent_soil := a\<rparr>) = (p2, n)" and
    sl: "safety_layer data a b p2 = Inr (p3, d)" and
    il: "intelligence_layer a b (clock_start ev) (clock_check ev) d p3 = Inr (p4, d1, cmd, v)" and
    op: "output_payload data (stamp ev) a b c d1 v (p4\<lparr>pump_status := cmd\<rparr>) = Inr out" and
    dc: "decide data ev a b c ?p0 =
           \<lparr>brain = p4\<lparr>pump_status := cmd\<rparr>, fetches = n, outcome = Emitted out\<rparr>"
    by (rule decide_Emitted)
  from sd dc have 1: "brain (sensor_data data ev p) = p4\<lparr>pump_status := cmd\<rparr>"
    and 2: "fetches (sensor_data data ev p) = n" by simp_all
  from get_weather_frame [OF gw]
  have 3: "last_sent_soil p2 = a" "last_sent_temp p2 = b"
    "pump_status p2 = pump_status p" "last_pump_time p2 = last_pump_time p" by simp_all
  from 1 2 sl il op 3 show ?thesis by (rule that)
qed

subsection \<open>The nutrient condition on numbers\<close>

lemma nutrient_burn_numeric:
  assumes "py_getitem data ''nitrogen'' = Inr n" "py_num n = Some nv"
    "py_getitem data ''potassium'' = Inr k" "py_num k = Some kv"
  shows "nutrient_burn data = Inr (nv > 200 \<or> kv > 200)"
  using assms by (cases "nv > 200") (simp_all add: nutrient_burn_def py_gt_def)

subsection \<open>Sequences of weather calls\<close>

lemma get_weather_throttled:
  "now - last_weather_fetch p < 600 \<Longrightarrow> get_weather now resp p = (p, 0)"
  by (simp add: get_weather_def)

lemma get_weather_due:
  "\<not> now - last_weather_fetch p < 600 \<Longrightarrow>
     snd (get_weather now resp p) = 1
     \<and> last_weather_fetch (fst (get_weather now resp p)) = now"
  by (simp add: get_weather_def Let_def)

lemma get_weather_count:
  "snd (get_weather now resp p) = (if now - last_weather_fetch p < 600 then 0 else 1)"
  by (simp add: get_weather_def Let_def)

lemma get_weather_stamp:
  "last_weather_fetch (fst (get_weather now resp p)) =
     (if now - last_weather_fetch p < 600 then last_weather_fetch p else now)"
  by (simp add: get_weather_def Let_def)

lemma weather_calls_Cons:
  "weather_calls (c # cs) p =
     snd (get_weather (fst c) (snd c) p) # weather_calls cs (fst (get_weather (fst c) (snd c) p))"
  by (cases c) (simp split: prod.splits)

lemma weather_calls_le_one: "n \<in> set (weather_calls cs p) \<Longrightarrow> n \<le> 1"
proof (induction cs arbitrary: p)
  case Nil
  then show ?case by simp
next
  case (Cons c cs)
  from Cons.prems
  have "n = snd (get_weather (fst c) (snd c) p)
      \<or> n \<in> set (weather_calls cs (fst (get_weather (fst c) (snd c) p)))"
    by (simp only: weather_calls_Cons set_ConsD list.set insert_iff)
  then show ?case
  proof
    assume "n = snd (get_weather (fst c) (snd c) p)"
    then show ?thesis by (simp add: get_weather_count)
  next
    assume "n \<in> set (weather_calls cs (fst (get_weather (fst c) (snd c) p)))"
    then show ?thesis by (rule Cons.IH)
  qed
qed

lemma fetch_after_stamp:
  "j < length cs \<Longrightarrow> weather_calls cs p ! j = 1 \<Longrightarrow>
     fst (cs ! j) - last_weather_fetch p \<ge> 600"
proof (induction cs arbitrary: p j)
  case Nil
  then show ?case by simp
next
  case (Cons c cs)
  let ?g = "get_weather (fst c) (snd c) p"
  show ?case
  proof (cases j)
    case 0
    with Cons.prems(2) have "snd ?g = 1"
      by (simp only: weather_calls_Cons nth_Cons_0)
    then have "\<not> fst c - last_weather_fetch p < 600"
      by (simp add: get_weather_count split: if_splits)
    with 0 show ?thesis by simp
  next
    case (Suc i)
    with Cons.prems have "i < length cs" "weather_calls cs (fst ?g) ! i = 1"
      by (simp_all only: weather_calls_Cons nth_Cons_Suc length_Cons Suc_less_eq)
    from Cons.IH [OF this] have "fst (cs ! i) - last_weather_fetch (fst ?g) \<ge> 600" .
    then have "fst (cs ! i) - last_weather_fetch p \<ge> 600"
      by (simp add: get_weather_stamp split: if_splits)
    with Suc show ?thesis by simp
  qed
qed

lemma fetches_spaced:
  "i < j \<Longrightarrow> j < length cs \<Longrightarrow> weather_calls cs p ! i = 1 \<Longrightarrow>
     weather_calls cs p ! j = 1 \<Longrightarrow> fst (cs ! j) - fst (cs ! i) \<ge> 600"
proof (induction cs arbitrary: p i j)
  case Nil
  then show ?case by simp
next
  case (Cons c cs)
  let ?g = "get_weather (fst c) (snd c) p"
  from Cons.prems(1) obtain j' where j: "j = Suc j'" by (cases j) simp_all
  with Cons.prems(2,4) have tl: "j' < length cs" "weather_calls cs (fst ?g) ! j' = 1"
    by (simp_all only: weather_calls_Cons nth_Cons_Suc length_Cons Suc_less_eq)
  show ?case
  proof (cases i)
    case 0
    with Cons.prems(3) have "snd ?g = 1"
      by (simp only: weather_calls_Cons nth_Cons_0)
    then have "last_weather_fetch (fst ?g) = fst c"
      by (simp add: get_weather_count get_weather_stamp split: if_splits)
    with fetch_after_stamp [OF tl] 0 j show ?thesis by simp
  next
    case (Suc i')
    with Cons.prems(1,3) j have "i' < j'" "weather_calls cs (fst ?g) ! i' = 1"
      by (simp_all only: weather_calls_Cons nth_Cons_Suc Suc_less_eq)
    from Cons.IH [OF this(1) tl(1) this(2) tl(2)] Suc j show ?thesis by simp
  qed
qed

subsection \<open>Every way a cycle can end\<close>

lemma sensor_data_cases:
  obtains
    (no_soil) e where "py_getitem data ''soil_moisture'' = Inl e"
      "sensor_data data ev p = halt p 0 (Raised e)"
  | (no_temp) s e where "py_getitem data ''soil_moisture'' = Inr s"
      "py_getitem data ''temperature'' = Inl e"
      "sensor_data data ev p =
         halt (p\<lparr>soil_buffer := deque_append (soil_buffer p) s\<rparr>) 0 (Raised e)"
  | (no_light) s t e where "py_getitem data ''soil_moisture'' = Inr s"
      "py_getitem data ''temperature'' = Inr t"
      "py_getitem data ''light_intensity'' = Inl e"
      "sensor_data data ev p =
         halt (p\<lparr>soil_buffer := deque_append (soil_buffer p) s,
                 temp_buffer := deque_append (temp_buffer p) t\<rparr>) 0 (Raised e)"
  | (gate) s t l where "py_getitem data ''soil_moisture'' = Inr s"
      "py_getitem data ''temperature'' = Inr t"
      "py_getitem data ''light_intensity'' = Inr l"
      "length (deque_append (soil_buffer p) s) < 2"
      "sensor_data data ev p =
         halt (p\<lparr>soil_buffer := deque_append (soil_buffer p) s,
                 temp_buffer := deque_append (temp_buffer p) t,
                 light_buffer := deque_append (light_buffer p) l\<rparr>) 0 Dropped"
  | (no_mean) s t l e where "py_getitem data ''soil_moisture'' = Inr s"
      "py_getitem data ''temperature'' = Inr t"
      "py_getitem data ''light_intensity'' = Inr l"
      "\<not> length (deque_append (soil_buffer p) s) < 2"
      "py_mean (platform ev) (deque_append (soil_buffer p) s) = Inl e
       \<or> py_mean (platform ev) (deque_append (temp_buffer p) t) = Inl e
       \<or> py_mean (platform ev) (deque_append (light_buffer p) l) = Inl e"
      "sensor_data data ev p =
         halt (p\<lparr>soil_buffer := deque_append (soil_buffer p) s,
                 temp_buffer := deque_append (temp_buffer p) t,
                 light_buffer := deque_append (light_buffer p) l\<rparr>) 0 (Raised e)"
  | (means) s t l a b c where "py_getitem data ''soil_moisture'' = Inr s"
      "py_getitem data ''temperature'' = Inr t"
      "py_getitem data ''light_intensity'' = Inr l"
      "\<not> length (deque_append (soil_buffer p) s) < 2"
      "py_mean (platform ev) (deque_append (soil_buffer p) s) = Inr a"
      "py_mean (platform ev) (deque_append (temp_buffer p) t) = Inr b"
      "py_mean (platform ev) (deque_append (light_buffer p) l) = Inr c"
      "sensor_data data ev p =
         decide data ev a b c
           (p\<lparr>soil_buffer := deque_append (soil_buffer p) s,
              temp_buffer := deque_append (temp_buffer p) t,
              light_buffer := deque_append (light_buffer p) l\<rparr>)"
proof (cases "py_getitem data ''soil_moisture''")
  case (Inl e)
  then show ?thesis by (intro no_soil [of e]) (simp_all add: sensor_data_def)
next
  case s: (Inr s)
  show ?thesis
  proof (cases "py_getitem data ''temperature''")
    case (Inl e)
    with s show ?thesis by (intro no_temp [of s e]) (simp_all add: sensor_data_def)
  next
    case t: (Inr t)
    show ?thesis
    proof (cases "py_getitem data ''light_intensity''")
      case (Inl e)
      with s t show ?thesis by (intro no_light [of s t e]) (simp_all add: sensor_data_def)
    next
      case l: (Inr l)
      show ?thesis
      proof (cases "length (deque_append (soil_buffer p) s) < 2")
        case True
        with s t l show ?thesis by (intro gate [of s t l]) (simp_all add: sensor_data_def)
      next
        case g: False
        show ?thesis
        proof (cases "py_mean (platform ev) (deque_append (soil_buffer p) s)")
          case (Inl e)
          with s t l g show ?thesis
            by (intro no_mean [of s t l e]) (simp_all add: sensor_data_def)
        next
          case a: (Inr a)
          show ?thesis
          proof (cases "py_mean (platform ev) (deque_append (temp_buffer p) t)")
            case (Inl e)
            with s t l g a show ?thesis
              by (intro no_mean [of s t l e]) (simp_all add: sensor_data_def)
          next
            case b: (Inr b)
            show ?thesis
            proof (cases "py_mean (platform ev) (deque_append (light_buffer p) l)")
              case (Inl e)
              with s t l g a b show ?thesis
                by (intro no_mean [of s t l e]) (simp_all add: sensor_data_def)
            next
              case c: (Inr c)
              with s t l g a b show ?thesis
                by (intro means [of s t l a b c]) (simp_all add: sensor_data_def)
            qed
          qed
        qed
      qed
    qed
  qed
qed

lemma decide_keeps:
  "soil_buffer (brain (decide data ev a b c p)) = soil_buffer p
   \<and> temp_buffer (brain (decide data ev a b c p)) = temp_buffer p
   \<and> light_buffer (brain (decide data ev a b c p)) = light_buffer p
   \<and> last_sent_soil (brain (decide data ev a b c p)) = a
   \<and> last_sent_temp (brain (decide data ev a b c p)) = b"
proof -
  obtain p2 n where gw: "get_weather (clock_weather ev) (weather_response ev)
       (p\<lparr>last_sent_temp := b, last_sent_soil := a\<rparr>) = (p2, n)"
    by (cases "get_weather (clock_weather ev) (weather_response ev)
       (p\<lparr>last_sent_temp := b, last_sent_soil := a\<rparr>)")
  note f = get_weather_frame [OF gw]
  show ?thesis
  proof (cases "safety_layer data a b p2")
    case (Inl e)
    with gw f show ?thesis by (simp add: decide_def halt_def)
  next
    case (Inr pd)
    then obtain p3 d where sl: "safety_layer data a b p2 = Inr (p3, d)" by (cases pd) simp
    note sk = safety_layer_keeps [OF sl]
    show ?thesis
    proof (cases "intelligence_layer a b (clock_start ev) (clock_check ev) d p3")
      case (Inl e)
      with gw sl f sk show ?thesis by (simp add: decide_def halt_def)
    next
      case (Inr r)
      then obtain p4 d1 cmd v where
        il: "intelligence_layer a b (clock_start ev) (clock_check ev) d p3 = Inr (p4, d1, cmd, v)"
        by (cases r) auto
      note ik = intelligence_layer_keeps [OF il]
      from gw sl il f sk ik show ?thesis
        by (simp add: decide_def halt_def Let_def split: sum.splits)
    qed
  qed
qed

subsection \<open>A published record had all its fields\<close>









subsection \<open>Windows and means over a sequence of cycles\<close>

lemma run_brain_append: "run_brain (xs @ ys) p = run_brain ys (run_brain xs p)"
  by (induction xs arbitrary: p) auto

lemma run_brain_snoc:
  "run_brain (cs @ [c]) p = brain (sensor_data (fst c) (snd c) (run_brain cs p))"
  by (cases c) (simp add: run_brain_append)

lemma run_brain_take_Suc:
  "k < length cs \<Longrightarrow> run_brain (take (Suc k) cs) p = brain (nth_cycle cs p k)"
  by (simp add: take_Suc_conv_app_nth run_brain_snoc nth_cycle_def)





subsection \<open>The pulse timer over a sequence of cycles\<close>

lemma critical_cycle:
  assumes em: "outcome (sensor_data data ev p) = Emitted out"
    and cr: "out_algorithm_state out = ''Critical: Pulse Irrigation''"
  shows "last_pump_time (brain (sensor_data data ev p)) =
           (if pump_status p then last_pump_time p else clock_start ev)
       \<and> out_pump_active out =
           (\<not> clock_check ev - last_pump_time (brain (sensor_data data ev p)) > 10)
       \<and> pump_status (brain (sensor_data data ev p)) = out_pump_active out
       \<and> (\<not> out_pump_active out \<longrightarrow> out_alert out = ''Pump Timeout (Safety)'')"
proof -
  from em obtain a b c p2 p3 d p4 d1 cmd v where
    br: "brain (sensor_data data ev p) = p4\<lparr>pump_status := cmd\<rparr>" and
    sl: "safety_layer data a b p2 = Inr (p3, d)" and
    il: "intelligence_layer a b (clock_start ev) (clock_check ev) d p3 = Inr (p4, d1, cmd, v)" and
    op: "output_payload data (stamp ev) a b c d1 v (p4\<lparr>pump_status := cmd\<rparr>) = Inr out" and
    av: "pump_status p2 = pump_status p" "last_pump_time p2 = last_pump_time p"
    by (rule sensor_data_published)
  note sk = safety_layer_keeps [OF sl]
  from op cr have d1: "d1 = ''Critical: Pulse Irrigation''"
    by (simp add: output_payload_fields)
  have lab: "(pump_lock p3 \<longrightarrow> d \<noteq> ''Critical: Pulse Irrigation'')
      \<and> (\<not> pump_lock p3 \<longrightarrow> d = ''Optimal'')"
    using sl by (cases rule: safety_layer_cases) simp_all
  from il show ?thesis
  proof (cases rule: intelligence_layer_cases)
    case locked
    with lab d1 show ?thesis by simp
  next
    case (critical x)
    note pk = pulse_logic_keeps [OF critical(6)]
    from pk(11,12,13) sk av br op show ?thesis
      by (simp add: output_payload_fields)
  next
    case (declined x)
    with lab d1 show ?thesis by (simp split: if_splits)
  qed
qed

lemma running_since_start:
  assumes idle: "\<not> pump_status p"
    and req: "\<forall>j < k. \<exists>out. outcome (nth_cycle cs p j) = Emitted out
                \<and> out_algorithm_state out = ''Critical: Pulse Irrigation''"
    and within: "\<forall>j < k. clock_check (snd (cs ! j)) - clock_start (snd (cs ! 0)) \<le> 10"
    and k: "k \<le> length cs" "0 < k"
  shows "pump_status (run_brain (take k cs) p)
       \<and> last_pump_time (run_brain (take k cs) p) = clock_start (snd (cs ! 0))"
  using req within k
proof (induction k)
  case 0
  then show ?case by simp
next
  case (Suc k)
  from Suc.prems(3) have kl: "k < length cs" by simp
  from Suc.prems(1) obtain out where
    em: "outcome (nth_cycle cs p k) = Emitted out" and
    cr: "out_algorithm_state out = ''Critical: Pulse Irrigation''" by auto
  from Suc.prems(2) have w: "clock_check (snd (cs ! k)) - clock_start (snd (cs ! 0)) \<le> 10"
    by simp
  note cc = critical_cycle [OF em [unfolded nth_cycle_def] cr, folded nth_cycle_def]
  have st: "run_brain (take (Suc k) cs) p = brain (nth_cycle cs p k)"
    using kl by (rule run_brain_take_Suc)
  show ?case
  proof (cases "k = 0")
    case True
    with cc idle w st show ?thesis by simp
  next
    case False
    with Suc.IH Suc.prems kl
    have "pump_status (run_brain (take k cs) p)
       \<and> last_pump_time (run_brain (take k cs) p) = clock_start (snd (cs ! 0))" by simp
    with cc w st show ?thesis by simp
  qed
qed

subsection \<open>Unfolding sets for concrete inputs\<close>

lemma double_limit_pos: "0 < double_limit"
  by (simp add: double_limit_def)

lemmas py_defs = py_eq_num_def py_gt_def py_sum_def py_mean_def deque_append_def

lemmas cycle_defs = sensor_data_def decide_def halt_def output_payload_def
  intelligence_layer_def pulse_logic_def safety_layer_def nutrient_burn_def
  get_weather_def weather_update_def weather_fallback_def calculate_vpd_def

lemmas sample_defs = reading_def at_time_def exact_arithmetic_def double_limit_pos warmed_def
  answer_def
  readings_def heavy_def
  dry_cycles_def init_def

section \<open>The pump runs only on a critical decision\<close>

text \<open>
  C10. After every cycle that publishes a record, if the record reports the pump as
  active then the decision label of that cycle is "Critical: Pulse Irrigation" and the
  safety lock is off: the pump never runs under another label or while a safety rule
  has fired.
\<close>

theorem pump_only_when_critical:
  assumes "outcome (sensor_data data ev p) = Emitted out" and "out_pump_active out"
  shows "out_algorithm_state out = ''Critical: Pulse Irrigation''
       \<and> \<not> pump_lock (brain (sensor_data data ev p))
       \<and> pump_status (brain (sensor_data data ev p))"
proof -
  from assms(1) obtain a b c p0 where sd: "sensor_data data ev p = decide data ev a b c p0"
    by (rule sensor_data_Emitted)
  with assms(1) have "outcome (decide data ev a b c p0) = Emitted out" by simp
  then obtain n p3 d p4 d1 cmd v where
    il: "intelligence_layer a b (clock_start ev) (clock_check ev) d p3 = Inr (p4, d1, cmd, v)" and
    op: "output_payload data (stamp ev) a b c d1 v (p4\<lparr>pump_status := cmd\<rparr>) = Inr out" and
    dc: "decide data ev a b c p0 =
           \<lparr>brain = p4\<lparr>pump_status := cmd\<rparr>, fetches = n, outcome = Emitted out\<rparr>"
    by (rule decide_Emitted)
  from op assms(2) have cmd: "cmd" by (simp add: output_payload_fields)
  from il cmd have "d1 = ''Critical: Pulse Irrigation'' \<and> \<not> pump_lock p4"
  proof (cases rule: intelligence_layer_cases)
    case (critical x)
    then show ?thesis by (auto simp: pulse_logic_eq Let_def split: if_splits)
  qed simp_all
  with op cmd sd dc show ?thesis
    by (simp add: output_payload_fields)
qed

theorem pump_only_when_critical_witness:
  "\<exists>out. outcome (sensor_data (reading 30 0) (at_time 1000 (Inl RequestError)) (warmed 30 0))
           = Emitted out
     \<and> out_pump_active out
     \<and> out_algorithm_state out = ''Critical: Pulse Irrigation''
     \<and> \<not> pump_lock
           (brain (sensor_data (reading 30 0) (at_time 1000 (Inl RequestError)) (warmed 30 0)))"
proof -
  obtain out where
    h: "outcome (sensor_data (reading 30 0) (at_time 1000 (Inl RequestError)) (warmed 30 0))
          = Emitted out" "out_pump_active out"
    by (simp add: cycle_defs py_defs sample_defs)
  from pump_only_when_critical [OF h] h show ?thesis by blast
qed

section \<open>The published vapour pressure deficit\<close>



section \<open>The intelligence layer\<close>



section \<open>The safety layer\<close>

text \<open>
  C4. The safety layer tries its rules in a fixed order and applies the first that
  matches: averaged soil moisture above 80 gives the lock with label "Saturation Lock",
  whatever the temperature and the nutrients are; else averaged temperature above 35
  gives the lock with label "Heat Stress"; else nitrogen or potassium above 200 gives
  the lock with label "Salinity Risk"; else there is no lock and the label is "Optimal".
  With averaged soil moisture 85 and temperature 40 the label is "Saturation Lock".
  The last conjunct reads the same order off a published record, where the means are
  the ones the cycle stored in the plant.
\<close>

theorem safety_rule_order:
  "(avg_soil > 80 \<longrightarrow>
      safety_layer data avg_soil avg_temp p =
        Inr (p\<lparr>pump_lock := True, alert_message := ''Soil too wet! Pump disabled.''\<rparr>,
             ''Saturation Lock''))
   \<and> (\<not> avg_soil > 80 \<and> avg_temp > 35 \<longrightarrow>
      safety_layer data avg_soil avg_temp p =
        Inr (p\<lparr>pump_lock := True, alert_message := ''High Temp! Watering paused.''\<rparr>,
             ''Heat Stress''))
   \<and> (\<not> avg_soil > 80 \<and> \<not> avg_temp > 35
        \<and> py_getitem data ''nitrogen'' = Inr n \<and> py_num n = Some nitrogen
        \<and> py_getitem data ''potassium'' = Inr k \<and> py_num k = Some potassium \<longrightarrow>
      safety_layer data avg_soil avg_temp p =
        (if nitrogen > 200 \<or> potassium > 200
         then Inr (p\<lparr>pump_lock := True, alert_message := ''Nutrient Burn Risk! Flush soil.''\<rparr>,
                   ''Salinity Risk'')
         else Inr (p\<lparr>pump_lock := False, alert_message := ''System Normal''\<rparr>, ''Optimal'')))
   \<and> safety_layer data 85 40 p =
        Inr (p\<lparr>pump_lock := True, alert_message := ''Soil too wet! Pump disabled.''\<rparr>,
             ''Saturation Lock'')
   \<and> (outcome (sensor_data data ev p) = Emitted out \<longrightarrow>
        (last_sent_soil (brain (sensor_data data ev p)) > 80 \<longrightarrow>
           out_algorithm_state out = ''Saturation Lock''
         \<and> out_alert out = ''Soil too wet! Pump disabled.''
         \<and> pump_lock (brain (sensor_data data ev p)) \<and> \<not> out_pump_active out)
      \<and> (\<not> last_sent_soil (brain (sensor_data data ev p)) > 80
         \<and> last_sent_temp (brain (sensor_data data ev p)) > 35 \<longrightarrow>
           out_algorithm_state out = ''Heat Stress''
         \<and> out_alert out = ''High Temp! Watering paused.''
         \<and> pump_lock (brain (sensor_data data ev p)) \<and> \<not> out_pump_active out)
      \<and> (\<not> last_sent_soil (brain (sensor_data data ev p)) > 80
         \<and> \<not> last_sent_temp (brain (sensor_data data ev p)) > 35 \<longrightarrow>
           (\<exists>burn. nutrient_burn data = Inr burn
              \<and> pump_lock (brain (sensor_data data ev p)) = burn
              \<and> (burn \<longrightarrow> out_algorithm_state out = ''Salinity Risk''
                    \<and> out_alert out = ''Nutrient Burn Risk! Flush soil.''
                    \<and> \<not> out_pump_active out))))"
proof -
  have layer1: "avg_soil > 80 \<longrightarrow>
      safety_layer data avg_soil avg_temp p =
        Inr (p\<lparr>pump_lock := True, alert_message := ''Soil too wet! Pump disabled.''\<rparr>,
             ''Saturation Lock'')"
    by (simp add: safety_layer_def)
  have layer2: "\<not> avg_soil > 80 \<and> avg_temp > 35 \<longrightarrow>
      safety_layer data avg_soil avg_temp p =
        Inr (p\<lparr>pump_lock := True, alert_message := ''High Temp! Watering paused.''\<rparr>,
             ''Heat Stress'')"
    by (simp add: safety_layer_def)
  have layer3: "\<not> avg_soil > 80 \<and> \<not> avg_temp > 35
        \<and> py_getitem data ''nitrogen'' = Inr n \<and> py_num n = Some nitrogen
        \<and> py_getitem data ''potassium'' = Inr k \<and> py_num k = Some potassium \<longrightarrow>
      safety_layer data avg_soil avg_temp p =
        (if nitrogen > 200 \<or> potassium > 200
         then Inr (p\<lparr>pump_lock := True, alert_message := ''Nutrient Burn Risk! Flush soil.''\<rparr>,
                   ''Salinity Risk'')
         else Inr (p\<lparr>pump_lock := False, alert_message := ''System Normal''\<rparr>, ''Optimal''))"
    by (auto simp: safety_layer_def nutrient_burn_numeric)
  have example: "safety_layer data 85 40 p =
        Inr (p\<lparr>pump_lock := True, alert_message := ''Soil too wet! Pump disabled.''\<rparr>,
             ''Saturation Lock'')"
    by (simp add: safety_layer_def)
  have cycle: "(last_sent_soil (brain (sensor_data data ev p)) > 80 \<longrightarrow>
           out_algorithm_state out = ''Saturation Lock''
         \<and> out_alert out = ''Soil too wet! Pump disabled.''
         \<and> pump_lock (brain (sensor_data data ev p)) \<and> \<not> out_pump_active out)
      \<and> (\<not> last_sent_soil (brain (sensor_data data ev p)) > 80
         \<and> last_sent_temp (brain (sensor_data data ev p)) > 35 \<longrightarrow>
           out_algorithm_state out = ''Heat Stress''
         \<and> out_alert out = ''High Temp! Watering paused.''
         \<and> pump_lock (brain (sensor_data data ev p)) \<and> \<not> out_pump_active out)
      \<and> (\<not> last_sent_soil (brain (sensor_data data ev p)) > 80
         \<and> \<not> last_sent_temp (brain (sensor_data data ev p)) > 35 \<longrightarrow>
           (\<exists>burn. nutrient_burn data = Inr burn
              \<and> pump_lock (brain (sensor_data data ev p)) = burn
              \<and> (burn \<longrightarrow> out_algorithm_state out = ''Salinity Risk''
                    \<and> out_alert out = ''Nutrient Burn Risk! Flush soil.''
                    \<and> \<not> out_pump_active out)))"
    if em: "outcome (sensor_data data ev p) = Emitted out"
  proof -
    from em obtain a b c p2 p3 d p4 d1 cmd v where
      br: "brain (sensor_data data ev p) = p4\<lparr>pump_status := cmd\<rparr>" and
      sl: "safety_layer data a b p2 = Inr (p3, d)" and
      il: "intelligence_layer a b (clock_start ev) (clock_check ev) d p3 = Inr (p4, d1, cmd, v)" and
      op: "output_payload data (stamp ev) a b c d1 v (p4\<lparr>pump_status := cmd\<rparr>) = Inr out" and
      av: "last_sent_soil p2 = a" "last_sent_temp p2 = b"
      by (rule sensor_data_published)
    note ik = intelligence_layer_keeps [OF il]
    note sk = safety_layer_keeps [OF sl]
    have t: "last_sent_temp p4 = b" "last_sent_soil p4 = a"
      using ik sk av by simp_all
    have locked: "p4 = p3 \<and> d1 = d \<and> \<not> cmd" if "pump_lock p3"
      using il that by (cases rule: intelligence_layer_cases) simp_all
    from sl show ?thesis
    proof (cases rule: safety_layer_cases)
      case saturation
      with locked br op t show ?thesis by (simp add: output_payload_fields)
    next
      case heat
      with locked br op t show ?thesis by (simp add: output_payload_fields)
    next
      case salinity
      with locked br op t show ?thesis by (auto simp: output_payload_fields)
    next
      case optimal
      with ik br t show ?thesis by auto
    qed
  qed
  with layer1 layer2 layer3 example show ?thesis by blast
qed

theorem safety_rule_order_witness:
  "safety_layer (reading 85 40) 85 40 init =
     Inr (init\<lparr>pump_lock := True, alert_message := ''Soil too wet! Pump disabled.''\<rparr>,
          ''Saturation Lock'')
   \<and> safety_layer (reading 50 40) 50 40 init =
     Inr (init\<lparr>pump_lock := True, alert_message := ''High Temp! Watering paused.''\<rparr>,
          ''Heat Stress'')
   \<and> safety_layer (PDict [(''nitrogen'', PInt 250), (''potassium'', PInt 50)]) 50 30 init =
     Inr (init\<lparr>pump_lock := True, alert_message := ''Nutrient Burn Risk! Flush soil.''\<rparr>,
          ''Salinity Risk'')
   \<and> safety_layer (reading 50 30) 50 30 init =
     Inr (init\<lparr>pump_lock := False, alert_message := ''System Normal''\<rparr>, ''Optimal'')
   \<and> (\<exists>out. outcome (sensor_data (reading 85 40) (at_time 1000 (Inl RequestError))
                       (warmed 85 40)) = Emitted out
        \<and> out_algorithm_state out = ''Saturation Lock'')"
proof -
  let ?r = "sensor_data (reading 85 40) (at_time 1000 (Inl RequestError)) (warmed 85 40)"
  obtain o1 where h: "outcome ?r = Emitted o1"
    by (simp add: cycle_defs py_defs sample_defs)
  have s: "last_sent_soil (brain ?r) > 80"
    by (simp add: cycle_defs py_defs sample_defs)
  from safety_rule_order [where avg_soil = 85 and avg_temp = 40 and data = "reading 85 40"
      and p = init]
  have a: "safety_layer (reading 85 40) 85 40 init =
     Inr (init\<lparr>pump_lock := True, alert_message := ''Soil too wet! Pump disabled.''\<rparr>,
          ''Saturation Lock'')"
    by simp
  from safety_rule_order [where avg_soil = 50 and avg_temp = 40 and data = "reading 50 40"
      and p = init]
  have b: "safety_layer (reading 50 40) 50 40 init =
     Inr (init\<lparr>pump_lock := True, alert_message := ''High Temp! Watering paused.''\<rparr>,
          ''Heat Stress'')"
    by simp
  from safety_rule_order [where avg_soil = 50 and avg_temp = 30
      and data = "PDict [(''nitrogen'', PInt 250), (''potassium'', PInt 50)]"
      and n = "PInt 250" and nitrogen = 250 and k = "PInt 50" and potassium = 50 and p = init]
  have c: "safety_layer (PDict [(''nitrogen'', PInt 250), (''potassium'', PInt 50)]) 50 30 init =
     Inr (init\<lparr>pump_lock := True, alert_message := ''Nutrient Burn Risk! Flush soil.''\<rparr>,
          ''Salinity Risk'')"
    by simp
  from safety_rule_order [where avg_soil = 50 and avg_temp = 30 and data = "reading 50 30"
      and n = "PInt 50" and nitrogen = 50 and k = "PInt 50" and potassium = 50 and p = init]
  have d: "safety_layer (reading 50 30) 50 30 init =
     Inr (init\<lparr>pump_lock := False, alert_message := ''System Normal''\<rparr>, ''Optimal'')"
    by (simp add: reading_def)
  from safety_rule_order [where data = "reading 85 40"
      and ev = "at_time 1000 (Inl RequestError)" and p = "warmed 85 40" and out = o1] h s
  have e: "out_algorithm_state o1 = ''Saturation Lock''"
    by simp
  from a b c d e h show ?thesis by blast
qed

section \<open>The weather throttle\<close>

text \<open>
  C6. A call of the weather provider less than 600 seconds after the stored fetch time
  returns the plant unchanged and sends no request. A call that is due sends exactly one
  request and stores its own clock reading as the fetch time, whatever the answer is, a
  failure included. So two calls one second apart send at most one request between
  them, two due calls 601 seconds apart send one each, no call sends more than one, and
  in any sequence of calls two that send a request are at least 600 seconds apart.
\<close>

theorem weather_throttle:
  "(now - last_weather_fetch p < 600 \<longrightarrow> get_weather now resp p = (p, 0))
   \<and> (\<not> now - last_weather_fetch p < 600 \<longrightarrow>
        snd (get_weather now resp p) = 1
        \<and> last_weather_fetch (fst (get_weather now resp p)) = now)
   \<and> sum_list (weather_calls [(now, resp), (now + 1, resp')] p) \<le> 1
   \<and> (\<not> now - last_weather_fetch p < 600 \<longrightarrow>
        weather_calls [(now, resp), (now + 601, resp')] p = [1, 1])
   \<and> (\<forall>n \<in> set (weather_calls cs p). n \<le> 1)
   \<and> (i < j \<and> j < length cs \<and> weather_calls cs p ! i = 1 \<and> weather_calls cs p ! j = 1 \<longrightarrow>
        fst (cs ! j) - fst (cs ! i) \<ge> 600)"
proof -
  have one_second: "sum_list (weather_calls [(now, resp), (now + 1, resp')] p) \<le> 1"
    by (simp add: weather_calls_Cons get_weather_count get_weather_stamp del: weather_calls.simps(2))
  have far: "\<not> now - last_weather_fetch p < 600 \<longrightarrow>
        weather_calls [(now, resp), (now + 601, resp')] p = [1, 1]"
    by (simp add: weather_calls_Cons get_weather_count get_weather_stamp del: weather_calls.simps(2))
  from one_second far show ?thesis
    using get_weather_throttled [of now p resp] get_weather_due [of now p resp]
      weather_calls_le_one [of _ cs p] fetches_spaced [of i j cs p]
    by blast
qed

theorem weather_throttle_witness:
  "get_weather 100 (Inl RequestError) init = (init, 0)
   \<and> snd (get_weather 1000 (Inl RequestError) init) = 1
   \<and> last_weather_fetch (fst (get_weather 1000 (Inl RequestError) init)) = 1000
   \<and> weather_calls [(1000, Inl RequestError), (1000 + 601, Inr (answer ''Rain'' 25 80))] init
       = [1, 1]
   \<and> weather_calls [(1000, Inl RequestError), (1001, Inl RequestError),
                      (1601, Inr (answer ''Rain'' 25 80))] init ! 2 = 1
   \<and> (600 :: real) \<le> 1601 - 1000"
proof -
  let ?cs = "[(1000, Inl RequestError), (1001, Inl RequestError),
              (1601, Inr (answer ''Rain'' 25 80))] :: (real \<times> response) list"
  have early: "(100 :: real) - last_weather_fetch init < 600"
    and due: "\<not> (1000 :: real) - last_weather_fetch init < 600"
    by (simp_all add: init_def)
  have calls: "weather_calls ?cs init ! 0 = 1" "weather_calls ?cs init ! 2 = 1"
    by (simp_all add: get_weather_def weather_update_def weather_fallback_def
        py_defs sample_defs)
  from weather_throttle [where now = 100 and p = init and resp = "Inl RequestError"] early
  have a: "get_weather 100 (Inl RequestError) init = (init, 0)" by blast
  from weather_throttle [where now = 1000 and p = init and resp = "Inl RequestError"
      and resp' = "Inr (answer ''Rain'' 25 80)"] due
  have b: "snd (get_weather 1000 (Inl RequestError) init) = 1
      \<and> last_weather_fetch (fst (get_weather 1000 (Inl RequestError) init)) = 1000
      \<and> weather_calls [(1000, Inl RequestError), (1000 + 601, Inr (answer ''Rain'' 25 80))] init
          = [1, 1]"
    by blast
  from weather_throttle [where cs = ?cs and p = init and i = 0 and j = 2] calls
  have c: "(600 :: real) \<le> 1601 - 1000" by simp
  from a b c calls show ?thesis by blast
qed

section \<open>The weather fallback\<close>

text \<open>
  A request that raises (a network error, a body that does not decode) takes the
  fallback: the condition becomes "Clouds", the stored temperature and humidity stay,
  the fetch time becomes the clock reading.
\<close>

lemma get_weather_raised:
  assumes "\<not> now - last_weather_fetch p < 600"
  shows "get_weather now (Inl e) p =
           (p\<lparr>weather_condition := PStr ''Clouds'', last_weather_fetch := now\<rparr>, 1)"
  using assms by (simp add: get_weather_def weather_fallback_def)

text \<open>
  C1. Every due refresh whose fetch fails (network error, malformed payload, status not
  ok) should set the condition to "Clouds", keep the stored temperature and humidity and
  set the fetch time. The code does not: an answer whose status is not 200 raises
  nothing, so the \<^verbatim>\<open>except\<close> branch is not taken and the condition stays what it was;
  and an answer with status 200 that lacks the humidity has its temperature stored
  before the subscript raises. The theorem evaluates both answers on the initial plant.
\<close>

theorem weather_failure_not_uniform:
  "get_weather 1000
      (Inr (PDict [(''cod'', PInt 401), (''message'', PStr ''Invalid API key'')])) init
     = (init\<lparr>last_weather_fetch := 1000\<rparr>, 1)
   \<and> weather_condition
        (fst (get_weather 1000
           (Inr (PDict [(''cod'', PInt 401), (''message'', PStr ''Invalid API key'')])) init))
       = PStr ''Unknown''
   \<and> get_weather 1000
      (Inr (PDict [(''cod'', PInt 200), (''weather'', PList [PDict [(''main'', PStr ''Rain'')]]),
                   (''main'', PDict [(''temp'', PFloat 12)])])) init
     = (init\<lparr>weather_condition := PStr ''Clouds'', outside_temp := PFloat 12,
              last_weather_fetch := 1000\<rparr>, 1)"
  by (simp add: get_weather_def weather_update_def weather_fallback_def py_defs init_def)

section \<open>The warm-up gate\<close>

text \<open>
  C8. A cycle after whose append the soil window holds fewer than 2 values ends early:
  no record is published, no weather request is sent, and the plant differs from the
  one before the cycle in the three smoothing windows only (pump state, lock, alert,
  weather snapshot and pulse timer are untouched). When the three window fields are
  present the handler returns at the gate, having appended each value to its window.
\<close>

theorem warm_up_gate:
  assumes "length (soil_buffer (brain (sensor_data data ev p))) < 2"
  shows "(\<forall>out. outcome (sensor_data data ev p) \<noteq> Emitted out)
       \<and> fetches (sensor_data data ev p) = 0
       \<and> brain (sensor_data data ev p) =
           p\<lparr>soil_buffer := soil_buffer (brain (sensor_data data ev p)),
             temp_buffer := temp_buffer (brain (sensor_data data ev p)),
             light_buffer := light_buffer (brain (sensor_data data ev p))\<rparr>
       \<and> (py_getitem data ''soil_moisture'' = Inr s
            \<and> py_getitem data ''temperature'' = Inr t
            \<and> py_getitem data ''light_intensity'' = Inr l \<longrightarrow>
          sensor_data data ev p =
            \<lparr>brain = p\<lparr>soil_buffer := deque_append (soil_buffer p) s,
                       temp_buffer := deque_append (temp_buffer p) t,
                       light_buffer := deque_append (light_buffer p) l\<rparr>,
             fetches = 0, outcome = Dropped\<rparr>)"
proof (cases data ev p rule: sensor_data_cases)
  case (no_soil e)
  then show ?thesis by (simp add: halt_def)
next
  case (no_temp s e)
  then show ?thesis by (simp add: halt_def)
next
  case (no_light s t e)
  then show ?thesis by (simp add: halt_def)
next
  case (gate s t l)
  then show ?thesis by (simp add: halt_def)
next
  case (no_mean s t l e)
  with assms show ?thesis by (simp add: halt_def)
next
  case (means s t l a b c)
  with assms decide_keeps [of data ev a b c
      "p\<lparr>soil_buffer := deque_append (soil_buffer p) s,
         temp_buffer := deque_append (temp_buffer p) t,
         light_buffer := deque_append (light_buffer p) l\<rparr>"]
  show ?thesis by simp
qed

theorem warm_up_gate_witness:
  "sensor_data (reading 30 0) (at_time 1000 (Inl RequestError)) init =
     \<lparr>brain = init\<lparr>soil_buffer := [PFloat 30], temp_buffer := [PFloat 0],
                   light_buffer := [PFloat 500]\<rparr>,
      fetches = 0, outcome = Dropped\<rparr>"
proof -
  have h: "length (soil_buffer
      (brain (sensor_data (reading 30 0) (at_time 1000 (Inl RequestError)) init))) < 2"
    by (simp add: cycle_defs py_defs sample_defs)
  have f: "py_getitem (reading 30 0) ''soil_moisture'' = Inr (PFloat 30)"
    "py_getitem (reading 30 0) ''temperature'' = Inr (PFloat 0)"
    "py_getitem (reading 30 0) ''light_intensity'' = Inr (PFloat 500)"
    by (simp_all add: reading_def)
  from warm_up_gate [OF h, where s = "PFloat 30" and t = "PFloat 0" and l = "PFloat 500"] f
  show ?thesis by (simp add: init_def deque_append_def)
qed

section \<open>Records with missing or non-numeric fields\<close>




section \<open>The smoothing windows\<close>




section \<open>The pump timeout\<close>

text \<open>
  C2. Start with the pump idle and let every cycle up to the \<open>k\<close>-th publish the label
  "Critical: Pulse Irrigation", which is how a cycle shows a pump request with the lock
  off. Time is counted from the clock reading taken when the pump started in the first
  cycle. As long as all earlier cycles were checked within 10 seconds of that start, the
  \<open>k\<close>-th cycle has the pump active exactly when its own check is within 10 seconds;
  the first cycle checked later has the pump inactive with the alert
  "Pump Timeout (Safety)". That cycle leaves the pump idle, so the next requesting cycle
  is a new start: it takes its own clock reading as the start time and runs again.
\<close>

theorem pump_timeout:
  assumes idle: "\<not> pump_status p"
    and k: "k < length cs"
    and req: "\<forall>j \<le> k. \<exists>out. outcome (nth_cycle cs p j) = Emitted out
                \<and> out_algorithm_state out = ''Critical: Pulse Irrigation''"
    and within: "\<forall>j < k. clock_check (snd (cs ! j)) - clock_start (snd (cs ! 0)) \<le> 10"
  shows "\<exists>out. outcome (nth_cycle cs p k) = Emitted out
       \<and> out_pump_active out = (clock_check (snd (cs ! k)) - clock_start (snd (cs ! 0)) \<le> 10)
       \<and> (\<not> out_pump_active out \<longrightarrow> out_alert out = ''Pump Timeout (Safety)'')
       \<and> pump_status (brain (nth_cycle cs p k)) = out_pump_active out
       \<and> last_pump_time (brain (nth_cycle cs p k)) = clock_start (snd (cs ! 0))
       \<and> (\<forall>out'. \<not> out_pump_active out \<and> Suc k < length cs
             \<and> outcome (nth_cycle cs p (Suc k)) = Emitted out'
             \<and> out_algorithm_state out' = ''Critical: Pulse Irrigation'' \<longrightarrow>
             last_pump_time (brain (nth_cycle cs p (Suc k))) = clock_start (snd (cs ! Suc k))
           \<and> out_pump_active out' =
               (clock_check (snd (cs ! Suc k)) - clock_start (snd (cs ! Suc k)) \<le> 10))"
proof -
  from req obtain out where
    em: "outcome (nth_cycle cs p k) = Emitted out" and
    cr: "out_algorithm_state out = ''Critical: Pulse Irrigation''" by auto
  note cc = critical_cycle [OF em [unfolded nth_cycle_def] cr, folded nth_cycle_def]
  have start: "(if pump_status (run_brain (take k cs) p)
                then last_pump_time (run_brain (take k cs) p)
                else clock_start (snd (cs ! k))) = clock_start (snd (cs ! 0))"
  proof (cases "k = 0")
    case True
    with idle show ?thesis by simp
  next
    case False
    from req have "\<forall>j < k. \<exists>out. outcome (nth_cycle cs p j) = Emitted out
                \<and> out_algorithm_state out = ''Critical: Pulse Irrigation''" by simp
    from running_since_start [OF idle this within] False k show ?thesis by simp
  qed
  with cc have t0: "last_pump_time (brain (nth_cycle cs p k)) = clock_start (snd (cs ! 0))"
    by simp
  with cc have act: "out_pump_active out =
      (clock_check (snd (cs ! k)) - clock_start (snd (cs ! 0)) \<le> 10)" by auto
  have restart: "last_pump_time (brain (nth_cycle cs p (Suc k))) = clock_start (snd (cs ! Suc k))
           \<and> out_pump_active out' =
               (clock_check (snd (cs ! Suc k)) - clock_start (snd (cs ! Suc k)) \<le> 10)"
    if off: "\<not> out_pump_active out" and n: "Suc k < length cs"
      and em': "outcome (nth_cycle cs p (Suc k)) = Emitted out'"
      and cr': "out_algorithm_state out' = ''Critical: Pulse Irrigation''" for out'
  proof -
    from k have st: "run_brain (take (Suc k) cs) p = brain (nth_cycle cs p k)"
      by (rule run_brain_take_Suc)
    with cc off have "\<not> pump_status (run_brain (take (Suc k) cs) p)" by simp
    with critical_cycle [OF em' [unfolded nth_cycle_def] cr', folded nth_cycle_def]
    show ?thesis by auto
  qed
  from em cc t0 act restart show ?thesis by blast
qed

theorem pump_timeout_witness:
  "(\<exists>out. outcome (nth_cycle (dry_cycles [0, 5, 10, 11, 12]) (warmed 30 0) 2) = Emitted out
        \<and> out_pump_active out)
   \<and> (\<exists>out. outcome (nth_cycle (dry_cycles [0, 5, 10, 11, 12]) (warmed 30 0) 3) = Emitted out
        \<and> \<not> out_pump_active out \<and> out_alert out = ''Pump Timeout (Safety)'')
   \<and> (\<exists>out. outcome (nth_cycle (dry_cycles [0, 5, 10, 11, 12]) (warmed 30 0) 4) = Emitted out
        \<and> out_pump_active out)
   \<and> last_pump_time (brain (nth_cycle (dry_cycles [0, 5, 10, 11, 12]) (warmed 30 0) 4)) = 12"
proof -
  let ?cs = "dry_cycles [0, 5, 10, 11, 12]"
  let ?p = "warmed 30 0"
  let ?critical = "\<lambda>j. \<exists>out. outcome (nth_cycle ?cs ?p j) = Emitted out
      \<and> out_algorithm_state out = ''Critical: Pulse Irrigation''"
  have idle: "\<not> pump_status ?p" by (simp add: sample_defs)
  have len: "length ?cs = 5" by (simp add: dry_cycles_def)
  have c0: "?critical 0" by (simp add: nth_cycle_def cycle_defs py_defs sample_defs)
  have c1: "?critical 1" by (simp add: nth_cycle_def cycle_defs py_defs sample_defs)
  have c2: "?critical 2" by (simp add: nth_cycle_def cycle_defs py_defs sample_defs)
  have c3: "?critical 3" by (simp add: nth_cycle_def cycle_defs py_defs sample_defs)
  have c4: "?critical 4" by (simp add: nth_cycle_def cycle_defs py_defs sample_defs)
  have clocks: "clock_start (snd (?cs ! 0)) = 0" "clock_check (snd (?cs ! 0)) = 0"
    "clock_check (snd (?cs ! 1)) = 5" "clock_check (snd (?cs ! 2)) = 10"
    "clock_check (snd (?cs ! 3)) = 11" "clock_check (snd (?cs ! 4)) = 12"
    "clock_start (snd (?cs ! 4)) = 12"
    by (simp_all add: dry_cycles_def at_time_def)
  have le2: "j = 0 \<or> j = 1 \<or> j = 2" if "j \<le> 2" for j :: nat using that by arith
  have le3: "j = 0 \<or> j = 1 \<or> j = 2 \<or> j = 3" if "j \<le> 3" for j :: nat using that by arith
  have lt2: "j = 0 \<or> j = 1" if "j < 2" for j :: nat using that by arith
  have lt3: "j = 0 \<or> j = 1 \<or> j = 2" if "j < 3" for j :: nat using that by arith
  have req2: "\<forall>j \<le> 2. ?critical j" using c0 c1 c2 le2 by blast
  have req3: "\<forall>j \<le> 3. ?critical j" using c0 c1 c2 c3 le3 by blast
  have in2: "\<forall>j < 2. clock_check (snd (?cs ! j)) - clock_start (snd (?cs ! 0)) \<le> 10"
  proof (intro allI impI)
    fix j :: nat assume "j < 2"
    from lt2 [OF this] clocks
    show "clock_check (snd (?cs ! j)) - clock_start (snd (?cs ! 0)) \<le> 10" by auto
  qed
  have in3: "\<forall>j < 3. clock_check (snd (?cs ! j)) - clock_start (snd (?cs ! 0)) \<le> 10"
  proof (intro allI impI)
    fix j :: nat assume "j < 3"
    from lt3 [OF this] clocks
    show "clock_check (snd (?cs ! j)) - clock_start (snd (?cs ! 0)) \<le> 10" by auto
  qed
  have k2: "2 < length ?cs" and k3: "3 < length ?cs" by (simp_all add: len)
  from pump_timeout [OF idle k2 req2 in2] clocks
  have a: "\<exists>out. outcome (nth_cycle ?cs ?p 2) = Emitted out \<and> out_pump_active out"
    by auto
  from pump_timeout [OF idle k3 req3 in3] obtain o3 where
    o3: "outcome (nth_cycle ?cs ?p 3) = Emitted o3"
      "out_pump_active o3 = (clock_check (snd (?cs ! 3)) - clock_start (snd (?cs ! 0)) \<le> 10)"
      "\<not> out_pump_active o3 \<longrightarrow> out_alert o3 = ''Pump Timeout (Safety)''"
    and restart: "\<And>out'. \<not> out_pump_active o3 \<and> Suc 3 < length ?cs
             \<and> outcome (nth_cycle ?cs ?p (Suc 3)) = Emitted out'
             \<and> out_algorithm_state out' = ''Critical: Pulse Irrigation'' \<Longrightarrow>
             last_pump_time (brain (nth_cycle ?cs ?p (Suc 3))) = clock_start (snd (?cs ! Suc 3))
           \<and> out_pump_active out' =
               (clock_check (snd (?cs ! Suc 3)) - clock_start (snd (?cs ! Suc 3)) \<le> 10)"
    by blast
  from o3 clocks have off: "\<not> out_pump_active o3" "out_alert o3 = ''Pump Timeout (Safety)''"
    by simp_all
  from c4 obtain o4 where o4: "outcome (nth_cycle ?cs ?p 4) = Emitted o4"
    "out_algorithm_state o4 = ''Critical: Pulse Irrigation''" by blast
  have s: "Suc 3 = 4" by simp
  from restart [of o4] off o4 len clocks
  have b: "last_pump_time (brain (nth_cycle ?cs ?p 4)) = 12" "out_pump_active o4"
    unfolding s by simp_all
  from a o3(1) off o4(1) b show ?thesis by blast
qed

end
